theory Spec2Isabelle
  imports Main "HOL-Library.List_Lexorder" "HOL-Library.Char_ord"
begin

section \<open>Data model\<close>

text \<open>
  The module \<^verbatim>\<open>depmap_network_functions.py\<close> works on INDRA statements. Of a
  statement it reads two things only: \<^verbatim>\<open>stmt.agent_list()\<close>, a list whose
  entries are agents or \<^verbatim>\<open>None\<close>, and \<^verbatim>\<open>stmt.to_json()['type']\<close>, the
  relation type as a string. Of an agent it reads \<^verbatim>\<open>ag.name\<close>.
\<close>

datatype agent = Agent (name: string)

record statement =
  agent_list :: "agent option list"
  stmt_type :: string

text \<open>The exceptions the module names, and one constructor for any other.\<close>

datatype error =
  AttributeError | KeyError | IndraDBRestError | StatementError | KeyboardInterrupt
  | OtherError string

section \<open>\<^verbatim>\<open>agent_name_set\<close>\<close>

text \<open>
  \<^verbatim>\<open>map(lambda ag: ag.name, stmt.agent_list())\<close>, consumed by \<^verbatim>\<open>set(...)\<close>:
  reading \<^verbatim>\<open>.name\<close> of \<^verbatim>\<open>None\<close> raises \<^verbatim>\<open>AttributeError\<close> at the first
  absent agent.
\<close>

fun map_name :: "agent option list \<Rightarrow> error + string list" where
  "map_name [] = Inr []"
| "map_name (None # ags) = Inl AttributeError"
| "map_name (Some ag # ags) =
     (case map_name ags of Inl e \<Rightarrow> Inl e | Inr ns \<Rightarrow> Inr (name ag # ns))"

text \<open>
  The loop of the \<^verbatim>\<open>except AttributeError\<close> branch: it passes over
  \<^verbatim>\<open>None\<close> and adds the name of every other agent to \<^verbatim>\<open>ags\<close>.
\<close>

fun add_names :: "agent option list \<Rightarrow> string set \<Rightarrow> string set" where
  "add_names [] ags = ags"
| "add_names (None # rest) ags = add_names rest ags"
| "add_names (Some ag # rest) ags = add_names rest (insert (name ag) ags)"

text \<open>
  \<^verbatim>\<open>ags.update\<close> runs only once the whole \<^verbatim>\<open>map\<close> has been consumed, so
  \<^verbatim>\<open>ags\<close> is still empty when the handler starts. Only \<^verbatim>\<open>AttributeError\<close>
  is caught; any other exception would leave the function.
\<close>

definition agent_name_set :: "statement \<Rightarrow> error + string set" where
  "agent_name_set stmt =
     (case map_name (agent_list stmt) of
        Inr ns \<Rightarrow> Inr ({} \<union> set ns)
      | Inl AttributeError \<Rightarrow> Inr (add_names (agent_list stmt) {})
      | Inl e \<Rightarrow> Inl e)"

section \<open>The ontology hierarchy\<close>

text \<open>
  The hierarchy manager is INDRA's, not this module's; the module calls its
  \<^verbatim>\<open>get_uri(ns, id)\<close> and \<^verbatim>\<open>get_parents(uri, type)\<close> and nothing else, so a
  hierarchy is any pair of such functions. The default argument
  \<^verbatim>\<open>ho=hm.hierarchies['entity']\<close> is the parameter \<open>ho\<close> of every caller below.
\<close>

record hierarchy =
  get_uri :: "string \<Rightarrow> string \<Rightarrow> string"
  get_parents :: "string \<Rightarrow> string \<Rightarrow> string set"

definition find_parent :: "hierarchy \<Rightarrow> string \<Rightarrow> string \<Rightarrow> string \<Rightarrow> string set" where
  "find_parent ho ns ident type = get_parents ho (get_uri ho ns ident) type"

definition common_parent ::
  "hierarchy \<Rightarrow> string \<Rightarrow> string \<Rightarrow> string \<Rightarrow> string \<Rightarrow> string \<Rightarrow> string set" where
  "common_parent ho ns1 id1 ns2 id2 type =
     find_parent ho ns1 id1 type \<inter> find_parent ho ns2 id2 type"

definition has_common_parent ::
  "hierarchy \<Rightarrow> string \<Rightarrow> string \<Rightarrow> string \<Rightarrow> string \<Rightarrow> string \<Rightarrow> bool" where
  "has_common_parent ho ns1 id1 ns2 id2 type = (common_parent ho ns1 id1 ns2 id2 type \<noteq> {})"

section \<open>\<^verbatim>\<open>nested_dict_gen\<close>\<close>

text \<open>
  The index is a \<^verbatim>\<open>defaultdict(dict)\<close>: a dictionary of dictionaries of sets of
  labels. Reading a missing outer key stores a fresh empty dictionary under it;
  reading a missing inner key raises \<^verbatim>\<open>KeyError\<close>.
\<close>

type_synonym index = "string \<rightharpoonup> (string \<rightharpoonup> string set)"

definition getitem :: "index \<Rightarrow> string \<Rightarrow> (string \<rightharpoonup> string set) \<times> index" where
  "getitem d k = (case d k of None \<Rightarrow> (Map.empty, d(k \<mapsto> Map.empty)) | Some m \<Rightarrow> (m, d))"

text \<open>\<^verbatim>\<open>d[a][b].add(label)\<close>\<close>

definition add_entry :: "index \<Rightarrow> string \<Rightarrow> string \<Rightarrow> string \<Rightarrow> error + index" where
  "add_entry d a b label =
     (case getitem d a of (m, d1) \<Rightarrow>
        (case m b of None \<Rightarrow> Inl KeyError
                   | Some s \<Rightarrow> Inr (d1(a \<mapsto> m(b \<mapsto> insert label s)))))"

text \<open>\<^verbatim>\<open>d[a][b] = v\<close>\<close>

definition set_entry :: "index \<Rightarrow> string \<Rightarrow> string \<Rightarrow> string set \<Rightarrow> index" where
  "set_entry d a b v = (case getitem d a of (m, d1) \<Rightarrow> d1(a \<mapsto> m(b \<mapsto> v)))"

text \<open>
  The \<^verbatim>\<open>try\<close>/\<^verbatim>\<open>except KeyError\<close> of the inner loop. (The empty dictionary
  that the failed read left under \<open>a\<close> is the one the handler's assignment reads
  again, so the handler may start from \<open>d\<close>.)
\<close>

definition add_connection :: "index \<Rightarrow> string \<Rightarrow> string \<Rightarrow> string \<Rightarrow> error + index" where
  "add_connection d a b connection =
     (case add_entry d a b connection of
        Inl KeyError \<Rightarrow> Inr (set_entry d a b {connection})
      | r \<Rightarrow> r)"

text \<open>
  \<^verbatim>\<open>itertools.permutations(agent_names, r=2)\<close>: the pairs of entries at two
  different positions, in the order of the positions.
\<close>

definition permutations2 :: "'a list \<Rightarrow> ('a \<times> 'a) list" where
  "permutations2 xs =
     concat (map (\<lambda>i. map (\<lambda>j. (xs ! i, xs ! j)) (filter (\<lambda>j. j \<noteq> i) [0..<length xs]))
                 [0..<length xs])"

text \<open>
  The inner loop over the pairs. After the label of the statement, the label
  \<^verbatim>\<open>'parent'\<close> is added when \<^verbatim>\<open>has_common_parent(id1=agent, id2=other_agent)\<close>
  holds, the other arguments at their defaults.
\<close>

fun pair_loop :: "hierarchy \<Rightarrow> string \<Rightarrow> (string \<times> string) list \<Rightarrow> index \<Rightarrow> error + index" where
  "pair_loop ho connection [] d = Inr d"
| "pair_loop ho connection ((agent, other_agent) # rest) d =
     (case add_connection d agent other_agent connection of
        Inl e \<Rightarrow> Inl e
      | Inr d1 \<Rightarrow>
          if has_common_parent ho ''HGNC'' agent ''HGNC'' other_agent ''all''
          then (case add_entry d1 agent other_agent ''parent'' of
                  Inl e \<Rightarrow> Inl e
                | Inr d2 \<Rightarrow> pair_loop ho connection rest d2)
          else pair_loop ho connection rest d1)"

text \<open>
  The loop over the statements. \<^verbatim>\<open>list(agent_name_set(st))\<close> lists a set in an
  order Python does not specify: \<open>list_of\<close> is that listing. An empty string is
  the falsy label of \<^verbatim>\<open>if connection:\<close>.
\<close>

fun stmt_loop ::
  "hierarchy \<Rightarrow> (string set \<Rightarrow> string list) \<Rightarrow> statement list \<Rightarrow> index \<Rightarrow> error + index" where
  "stmt_loop ho list_of [] d = Inr d"
| "stmt_loop ho list_of (st # rest) d =
     (case agent_name_set st of
        Inl e \<Rightarrow> Inl e
      | Inr names \<Rightarrow>
          (let agent_names = list_of names in
           if length agent_names > 1 then
             (let connection = stmt_type st in
              if connection \<noteq> [] then
                (case pair_loop ho connection (permutations2 agent_names) d of
                   Inl e \<Rightarrow> Inl e
                 | Inr d1 \<Rightarrow> stmt_loop ho list_of rest d1)
              else stmt_loop ho list_of rest d)
           else stmt_loop ho list_of rest d))"

text \<open>
  \<open>stmts\<close> is the collection in the order the \<^verbatim>\<open>for\<close> loop visits it. The
  closing log line is not modelled.
\<close>

definition nested_dict_gen ::
  "hierarchy \<Rightarrow> (string set \<Rightarrow> string list) \<Rightarrow> statement list \<Rightarrow> error + index" where
  "nested_dict_gen ho list_of stmts = stmt_loop ho list_of stmts Map.empty"

text \<open>\<^verbatim>\<open>index[a][b]\<close> read without creating anything: the entry of a pair, if any.\<close>

definition entry :: "index \<Rightarrow> string \<Rightarrow> string \<Rightarrow> string set option" where
  "entry d a b = (case d a of None \<Rightarrow> None | Some m \<Rightarrow> m b)"

section \<open>\<^verbatim>\<open>dbc_load_statements\<close>\<close>

text \<open>
  The database client and the session of \<^verbatim>\<open>db_prim\<close> are INDRA's. A fetch
  \<^verbatim>\<open>dbc.get_statements_by_gene_role_type(agent_id=hgnc_id, db=db_prim, ...)\<close> acts on
  the database handle and returns statements or raises; \<^verbatim>\<open>db_prim.session.rollback()\<close>
  acts on the handle. Both are parameters, over any type \<open>'db\<close> of handle states.
  The counter and the progress log lines are not modelled; the modulus of the
  counter is at least 10, and the logarithm is taken of a length that is at least 1
  inside the loop, so they raise nothing.
\<close>

type_synonym 'db fetch = "string \<Rightarrow> 'db \<Rightarrow> (error + statement list) \<times> 'db"

fun load_loop ::
  "'db fetch \<Rightarrow> string list \<Rightarrow> statement set \<Rightarrow> 'db \<Rightarrow> (error + statement set) \<times> 'db" where
  "load_loop get_statements_by_gene_role_type [] stmts db = (Inr stmts, db)"
| "load_loop get_statements_by_gene_role_type (hgnc_id # rest) stmts db =
     (case get_statements_by_gene_role_type hgnc_id db of
        (Inl e, db1) \<Rightarrow> (Inl e, db1)
      | (Inr got, db1) \<Rightarrow>
          load_loop get_statements_by_gene_role_type rest (stmts \<union> set got) db1)"

definition dbc_load_statements ::
  "'db fetch \<Rightarrow> ('db \<Rightarrow> 'db) \<Rightarrow> string list \<Rightarrow> 'db \<Rightarrow> (error + statement set) \<times> 'db" where
  "dbc_load_statements get_statements_by_gene_role_type rollback hgnc_ids db =
     (case load_loop get_statements_by_gene_role_type hgnc_ids {} db of
        (Inl KeyboardInterrupt, db1) \<Rightarrow> (Inl KeyboardInterrupt, rollback db1)
      | (Inl StatementError, db1) \<Rightarrow> (Inl StatementError, rollback db1)
      | r \<Rightarrow> r)"

section \<open>Direct relations\<close>

text \<open>
  \<^verbatim>\<open>capi.get_statements(subject, object, on_limit)\<close> is the REST client's: it
  returns a list of statements or raises, and it acts on the world outside (the
  network), whose states are of any type \<open>'w\<close>.
\<close>

type_synonym 'w get_statements =
  "string \<Rightarrow> string \<Rightarrow> string \<Rightarrow> 'w \<Rightarrow> (error + statement list) \<times> 'w"

text \<open>
  The two lines that the \<^verbatim>\<open>try\<close> block and the handler of
  \<^verbatim>\<open>direct_relation_from_api\<close> share: the first query is bound to \<^verbatim>\<open>stmts\<close>;
  the second is made, and the sum \<^verbatim>\<open>stmts + ...\<close> is an expression statement
  whose value is dropped.
\<close>

definition query_both ::
  "'w get_statements \<Rightarrow> string \<Rightarrow> string \<Rightarrow> string \<Rightarrow> 'w \<Rightarrow> (error + statement list) \<times> 'w" where
  "query_both get_statements s ob on_limit w =
     (case get_statements s ob on_limit w of
        (Inl e, w1) \<Rightarrow> (Inl e, w1)
      | (Inr stmts, w1) \<Rightarrow>
          (case get_statements ob s on_limit w1 of
             (Inl e, w2) \<Rightarrow> (Inl e, w2)
           | (Inr reverse, w2) \<Rightarrow> (Inr stmts, w2)))"

definition direct_relation_from_api ::
  "'w get_statements \<Rightarrow> string \<Rightarrow> string \<Rightarrow> string \<Rightarrow> 'w \<Rightarrow> (error + statement list) \<times> 'w" where
  "direct_relation_from_api get_statements id1 id2 on_limit w =
     (case query_both get_statements id1 id2 on_limit w of
        (Inl IndraDBRestError, w1) \<Rightarrow>
          query_both get_statements (id1 @ ''@TEXT'') (id2 @ ''@TEXT'') on_limit w1
      | r \<Rightarrow> r)"

text \<open>The scan of \<^verbatim>\<open>direct_relation_from_stmts\<close>, \<open>stmts_out\<close> its accumulator.\<close>

fun scan_stmts :: "string set \<Rightarrow> statement list \<Rightarrow> statement list \<Rightarrow> error + statement list" where
  "scan_stmts target_ag [] stmts_out = Inr stmts_out"
| "scan_stmts target_ag (stms # rest) stmts_out =
     (case agent_name_set stms of
        Inl e \<Rightarrow> Inl e
      | Inr s_agents \<Rightarrow>
          scan_stmts target_ag rest
            (if target_ag \<subseteq> s_agents then stmts_out @ [stms] else stmts_out))"

definition direct_relation_from_stmts ::
  "string \<Rightarrow> string \<Rightarrow> statement list \<Rightarrow> error + statement list" where
  "direct_relation_from_stmts id1 id2 stmts_in = scan_stmts {id1, id2} stmts_in []"

text \<open>
  \<^verbatim>\<open>if not long_stmts\<close> is true of the empty collection, which is also the
  default of the parameter. The call of \<^verbatim>\<open>direct_relation_from_api\<close> leaves
  \<^verbatim>\<open>on_limit\<close> at its default, \<^verbatim>\<open>'sample'\<close>.
\<close>

definition direct_relation ::
  "'w get_statements \<Rightarrow> string \<Rightarrow> string \<Rightarrow> statement list \<Rightarrow> 'w \<Rightarrow> (error + statement list) \<times> 'w" where
  "direct_relation get_statements id1 id2 long_stmts w =
     (if long_stmts = [] then direct_relation_from_api get_statements id1 id2 ''sample'' w
      else (direct_relation_from_stmts id1 id2 long_stmts, w))"

definition relation_type :: "statement \<Rightarrow> string" where
  "relation_type indra_stmt = stmt_type indra_stmt"

fun append_types :: "statement list \<Rightarrow> string list \<Rightarrow> string list" where
  "append_types [] types = types"
| "append_types (stmt # rest) types = append_types rest (types @ [relation_type stmt])"

definition relation_types :: "statement list \<Rightarrow> string list" where
  "relation_types stmts = append_types stmts []"

definition has_direct_relation ::
  "'w get_statements \<Rightarrow> string \<Rightarrow> string \<Rightarrow> statement list \<Rightarrow> 'w \<Rightarrow> (error + bool) \<times> 'w" where
  "has_direct_relation get_statements id1 id2 long_stmts w =
     (case direct_relation get_statements id1 id2 long_stmts w of
        (Inl e, w1) \<Rightarrow> (Inl e, w1)
      | (Inr stmts, w1) \<Rightarrow> (Inr (stmts \<noteq> []), w1))"

text \<open>
  \<^verbatim>\<open>are_connected\<close> passes the namespace \<^verbatim>\<open>'HGCN'\<close> for both ids; \<^verbatim>\<open>or\<close>
  does not evaluate its second operand when the first is true.
\<close>

definition are_connected ::
  "hierarchy \<Rightarrow> 'w get_statements \<Rightarrow> string \<Rightarrow> string \<Rightarrow> statement list \<Rightarrow> 'w \<Rightarrow> (error + bool) \<times> 'w" where
  "are_connected ho get_statements id1 id2 long_stmts w =
     (if has_common_parent ho ''HGCN'' id1 ''HGCN'' id2 ''all'' then (Inr True, w)
      else has_direct_relation get_statements id1 id2 long_stmts w)"

definition connection_types ::
  "hierarchy \<Rightarrow> 'w get_statements \<Rightarrow> string \<Rightarrow> string \<Rightarrow> statement list \<Rightarrow> 'w
     \<Rightarrow> (error + string list) \<times> 'w" where
  "connection_types ho get_statements id1 id2 long_stmts w =
     (case direct_relation get_statements id1 id2 long_stmts w of
        (Inl e, w1) \<Rightarrow> (Inl e, w1)
      | (Inr stmts, w1) \<Rightarrow>
          (let ctypes = relation_types stmts in
           if has_common_parent ho ''HGNC'' id1 ''HGNC'' id2 ''all''
           then (Inr (ctypes @ [''parent'']), w1)
           else (Inr ctypes, w1)))"

section \<open>Notions the properties are stated with\<close>

text \<open>
  The participant-name set of a statement: the names of the participants that are
  present.
\<close>

definition participant_names :: "statement \<Rightarrow> string set" where
  "participant_names stmt = name ` Option.these (set (agent_list stmt))"

text \<open>The labels under \<^verbatim>\<open>index[a][b]\<close>, none when the pair has no entry.\<close>

definition labels :: "index \<Rightarrow> string \<Rightarrow> string \<Rightarrow> string set" where
  "labels d a b = (case entry d a b of None \<Rightarrow> {} | Some s \<Rightarrow> s)"

text \<open>What the common-parent test of the inner loop adds for a pair.\<close>

definition parent_label :: "hierarchy \<Rightarrow> string \<Rightarrow> string \<Rightarrow> string set" where
  "parent_label ho a b =
     (if has_common_parent ho ''HGNC'' a ''HGNC'' b ''all'' then {''parent''} else {})"

text \<open>
  The labels of the statements that tie \<open>a\<close> and \<open>b\<close>: the non-empty relation
  types of the statements that have both names among their participants.
\<close>

definition tying_labels :: "statement list \<Rightarrow> string \<Rightarrow> string \<Rightarrow> string set" where
  "tying_labels stmts a b =
     {stmt_type st |st. st \<in> set stmts \<and> stmt_type st \<noteq> []
        \<and> a \<in> participant_names st \<and> b \<in> participant_names st}"

section \<open>Test doubles\<close>

text \<open>Statements for the examples.\<close>

definition stmt_of :: "string \<Rightarrow> string list \<Rightarrow> statement" where
  "stmt_of label names = \<lparr>agent_list = map (\<lambda>n. Some (Agent n)) names, stmt_type = label\<rparr>"

text \<open>
  A store whose answers are a table over (subject, object) and which records every
  query made of it: the world is the list of the queries so far.
\<close>

definition recording_store ::
  "(string \<times> string \<Rightarrow> error + statement list) \<Rightarrow> (string \<times> string) list get_statements" where
  "recording_store answers s ob on_limit queries = (answers (s, ob), queries @ [(s, ob)])"

text \<open>A table with one answer: the query (subject B, object A) finds one statement.\<close>

definition reverse_only :: "string \<times> string \<Rightarrow> error + statement list" where
  "reverse_only q =
     (if q = (''B'', ''A'') then Inr [stmt_of ''Activation'' [''B'', ''A'']] else Inr [])"

text \<open>
  A hierarchy in the manner of INDRA's: a URI is the namespace and the id joined by
  a colon, and only the URIs of the HGNC symbols A and B have a parent, the same
  family.
\<close>

definition family_hierarchy :: hierarchy where
  "family_hierarchy =
     \<lparr>get_uri = (\<lambda>ns ident. ns @ '':'' @ ident),
      get_parents = (\<lambda>uri type. if uri = ''HGNC:A'' \<or> uri = ''HGNC:B'' then {''FPLX:AB''} else {})\<rparr>"

text \<open>A hierarchy in which nothing has a parent.\<close>

definition flat_hierarchy :: hierarchy where
  "flat_hierarchy = \<lparr>get_uri = (\<lambda>ns ident. ns @ '':'' @ ident), get_parents = (\<lambda>uri type. {})\<rparr>"

text \<open>
  A database session as the list of the operations pending in its transaction: a
  fetch adds one, and fails with a statement error for the id \<^verbatim>\<open>bad\<close>; a rollback
  drops them all.
\<close>

definition session_fetch :: "string list fetch" where
  "session_fetch hgnc_id pending =
     (if hgnc_id = ''bad'' then (Inl StatementError, pending @ [hgnc_id])
      else (Inr [stmt_of ''Complex'' [hgnc_id, ''X'']], pending @ [hgnc_id]))"

definition session_rollback :: "string list \<Rightarrow> string list" where
  "session_rollback pending = []"

section \<open>Properties of \<^verbatim>\<open>agent_name_set\<close>\<close>

lemma map_name_Inr:
  "map_name ags = Inr ns \<Longrightarrow> set ns = {name a |a. Some a \<in> set ags}"
  by (induction ags arbitrary: ns rule: map_name.induct) (auto split: sum.splits)

lemma map_name_Inl:
  "map_name ags = Inl e \<Longrightarrow> e = AttributeError \<and> None \<in> set ags"
  by (induction ags rule: map_name.induct) (auto split: sum.splits)

lemma map_name_None:
  "None \<in> set ags \<Longrightarrow> map_name ags = Inl AttributeError"
  by (induction ags rule: map_name.induct) auto

lemma add_names_eq:
  "add_names ags acc = acc \<union> {name a |a. Some a \<in> set ags}"
  by (induction ags acc rule: add_names.induct) auto

text \<open>Whichever branch runs, the result is the same set, and nothing is raised.\<close>

lemma agent_name_set_Inr:
  "agent_name_set stmt = Inr {name a |a. Some a \<in> set (agent_list stmt)}"
proof (cases "map_name (agent_list stmt)")
  case (Inl e)
  then have "e = AttributeError" by (simp add: map_name_Inl)
  with Inl show ?thesis by (simp add: agent_name_set_def add_names_eq)
next
  case (Inr ns)
  then show ?thesis by (simp add: agent_name_set_def map_name_Inr)
qed

lemma these_names: "name ` Option.these (set ags) = {name a |a. Some a \<in> set ags}"
  by (auto simp: Option.these_def image_iff) (metis option.sel)+

lemma agent_name_set_names: "agent_name_set stmt = Inr (participant_names stmt)"
  by (simp add: agent_name_set_Inr participant_names_def these_names)

lemma finite_participant_names [simp]: "finite (participant_names st)"
  by (simp add: participant_names_def Option.these_def)

lemma participant_names_stmt_of [simp]: "participant_names (stmt_of l ns) = set ns"
  by (induction ns) (auto simp: stmt_of_def participant_names_def)

lemma stmt_type_stmt_of [simp]: "stmt_type (stmt_of l ns) = l"
  by (simp add: stmt_of_def)

text \<open>
  Claim C9. For a statement whose participant list contains an absent (\<^verbatim>\<open>None\<close>)
  participant, the direct mapping raises \<^verbatim>\<open>AttributeError\<close>, yet
  \<^verbatim>\<open>agent_name_set\<close> raises nothing: it returns the set of the names of the
  participants that are present, and the absent one contributes nothing.
\<close>

theorem agent_name_set_tolerates_None:
  assumes "None \<in> set (agent_list stmt)"
  shows "map_name (agent_list stmt) = Inl AttributeError
       \<and> agent_name_set stmt = Inr {name a |a. Some a \<in> set (agent_list stmt)}"
  using assms by (simp add: map_name_None agent_name_set_Inr)

text \<open>A complex of A, an absent participant and B: the names are A and B.\<close>

theorem agent_name_set_tolerates_None_witness:
  "None \<in> set (agent_list \<lparr>agent_list = [Some (Agent ''A''), None, Some (Agent ''B'')], stmt_type = ''Complex''\<rparr>)
   \<and> agent_name_set \<lparr>agent_list = [Some (Agent ''A''), None, Some (Agent ''B'')], stmt_type = ''Complex''\<rparr>
       = Inr {''A'', ''B''}"
  using agent_name_set_tolerates_None
    [of "\<lparr>agent_list = [Some (Agent ''A''), None, Some (Agent ''B'')], stmt_type = ''Complex''\<rparr>"]
  by (simp add: agent_name_set_def insert_commute)

section \<open>Properties of the direct relations\<close>

lemma scan_stmts_eq:
  "scan_stmts target stmts_in out =
     Inr (out @ filter (\<lambda>s. target \<subseteq> participant_names s) stmts_in)"
  by (induction stmts_in arbitrary: out) (simp_all add: agent_name_set_names)

lemma direct_relation_from_stmts_filter:
  "direct_relation_from_stmts id1 id2 S =
     Inr (filter (\<lambda>s. {id1, id2} \<subseteq> participant_names s) S)"
  by (simp add: direct_relation_from_stmts_def scan_stmts_eq)

text \<open>
  Claim C7. For every collection \<open>S\<close> and all ids, \<^verbatim>\<open>direct_relation_from_stmts\<close>
  returns, in the order of \<open>S\<close>, exactly the statements of \<open>S\<close> whose
  participant-name set includes both ids, and it raises nothing.
\<close>

theorem direct_relation_from_stmts_exact:
  "direct_relation_from_stmts id1 id2 S =
     Inr (filter (\<lambda>s. {id1, id2} \<subseteq> name ` Option.these (set (agent_list s))) S)"
  using direct_relation_from_stmts_filter [of id1 id2 S] by (simp add: participant_names_def)

text \<open>The example of the specification: of two statements, only the one on A and B.\<close>

theorem direct_relation_from_stmts_exact_witness:
  "direct_relation_from_stmts ''A'' ''B''
     [stmt_of ''Phosphorylation'' [''A'', ''B''], stmt_of ''Activation'' [''C'', ''D'']]
   = Inr [stmt_of ''Phosphorylation'' [''A'', ''B'']]"
  using direct_relation_from_stmts_exact [of "''A''" "''B''"
     "[stmt_of ''Phosphorylation'' [''A'', ''B''], stmt_of ''Activation'' [''C'', ''D'']]"]
  by (simp add: stmt_of_def)

text \<open>
  When neither query raises, \<^verbatim>\<open>direct_relation_from_api\<close> returns the statements
  of the forward query alone: the reverse query is made, and its statements are
  dropped.
\<close>

lemma direct_relation_from_api_forward_only:
  assumes "gs id1 id2 on_limit w = (Inr forward, w1)"
    and "gs id2 id1 on_limit w1 = (Inr backward, w2)"
  shows "direct_relation_from_api gs id1 id2 on_limit w = (Inr forward, w2)"
  using assms by (simp add: direct_relation_from_api_def query_both_def)

text \<open>
  Claim C1 says that the result is the concatenation of the forward and the reverse
  query. It is not: with a store in which only the query (subject B, object A)
  finds a statement, \<^verbatim>\<open>direct_relation_from_api('A', 'B')\<close> makes both queries, the
  second returns that statement, and the result is the empty list.
\<close>

theorem direct_relation_from_api_drops_reverse:
  "direct_relation_from_api (recording_store reverse_only) ''A'' ''B'' ''sample'' []
     = (Inr [], [(''A'', ''B''), (''B'', ''A'')])
   \<and> recording_store reverse_only ''B'' ''A'' ''sample'' [(''A'', ''B'')]
     = (Inr [stmt_of ''Activation'' [''B'', ''A'']], [(''A'', ''B''), (''B'', ''A'')])"
  by (simp add: direct_relation_from_api_def query_both_def recording_store_def reverse_only_def)

text \<open>
  Claim C4, as amended. A collection that is not empty goes to
  \<^verbatim>\<open>direct_relation_from_stmts\<close>, whatever the store is, and the world is left as
  it was: no query is made. The empty collection, which is also what the parameter
  holds when no collection is supplied, goes to \<^verbatim>\<open>direct_relation_from_api\<close>.
\<close>

theorem direct_relation_delegates:
  "(long_stmts \<noteq> [] \<longrightarrow>
      direct_relation gs id1 id2 long_stmts w = (direct_relation_from_stmts id1 id2 long_stmts, w))
   \<and> (long_stmts = [] \<longrightarrow>
      direct_relation gs id1 id2 long_stmts w = direct_relation_from_api gs id1 id2 ''sample'' w)"
  by (simp add: direct_relation_def)

text \<open>With the recording store: no query for a collection of one statement.\<close>

theorem direct_relation_delegates_witness:
  "direct_relation (recording_store reverse_only) ''B'' ''A'' [stmt_of ''Complex'' [''A'', ''B'', ''C'']] []
     = (Inr [stmt_of ''Complex'' [''A'', ''B'', ''C'']], [])
   \<and> direct_relation (recording_store reverse_only) ''B'' ''A'' [] []
     = direct_relation_from_api (recording_store reverse_only) ''B'' ''A'' ''sample'' []"
  using direct_relation_delegates [of "[stmt_of ''Complex'' [''A'', ''B'', ''C'']]"
      "recording_store reverse_only" "''B''" "''A''" "[]"]
    direct_relation_delegates [of "[]" "recording_store reverse_only" "''B''" "''A''" "[]"]
  by (simp add: direct_relation_from_stmts_filter)

text \<open>
  Claim C4 as it is written fails for the empty collection: the store is queried
  twice, and the result is the store's statement, not the empty result of
  \<^verbatim>\<open>direct_relation_from_stmts\<close>.
\<close>

theorem direct_relation_empty_collection_counterexample:
  "direct_relation (recording_store reverse_only) ''B'' ''A'' [] []
     = (Inr [stmt_of ''Activation'' [''B'', ''A'']], [(''B'', ''A''), (''A'', ''B'')])
   \<and> direct_relation (recording_store reverse_only) ''B'' ''A'' [] []
     \<noteq> (direct_relation_from_stmts ''B'' ''A'' [], [])"
  by (simp add: direct_relation_def direct_relation_from_api_def query_both_def
      recording_store_def reverse_only_def)

section \<open>Properties of the classifier\<close>

lemma append_types_eq: "append_types stmts types = types @ map relation_type stmts"
  by (induction stmts arbitrary: types) simp_all

lemma relation_types_map: "relation_types stmts = map relation_type stmts"
  by (simp add: relation_types_def append_types_eq)

lemma family_common_parent:
  "has_common_parent family_hierarchy ''HGNC'' ''A'' ''HGNC'' ''B'' ''all''"
  by (simp add: has_common_parent_def common_parent_def find_parent_def family_hierarchy_def)

lemma family_no_HGCN_parent:
  "common_parent family_hierarchy ''HGCN'' ''A'' ''HGCN'' ''B'' ''all'' = {}"
  by (simp add: common_parent_def find_parent_def family_hierarchy_def)

text \<open>
  Claim C8. When \<^verbatim>\<open>direct_relation\<close> returns statements, \<^verbatim>\<open>connection_types\<close>
  returns their relation types in the same order, followed by \<^verbatim>\<open>'parent'\<close> exactly
  when \<^verbatim>\<open>has_common_parent(id1, id2)\<close> holds; its length is the number of those
  statements, plus one exactly in that case.
\<close>

theorem connection_types_labels_then_parent:
  assumes "direct_relation gs id1 id2 long_stmts w = (Inr stmts, w1)"
  shows "\<exists>ctypes. connection_types ho gs id1 id2 long_stmts w = (Inr ctypes, w1)
       \<and> ctypes = map relation_type stmts @
           (if has_common_parent ho ''HGNC'' id1 ''HGNC'' id2 ''all'' then [''parent''] else [])
       \<and> length ctypes = length stmts +
           (if has_common_parent ho ''HGNC'' id1 ''HGNC'' id2 ''all'' then 1 else 0)"
  using assms by (simp add: connection_types_def relation_types_map)

text \<open>Two of three statements relate A and B, which also share a parent.\<close>

theorem connection_types_labels_then_parent_witness:
  "connection_types family_hierarchy (recording_store reverse_only) ''A'' ''B''
     [stmt_of ''Phosphorylation'' [''A'', ''B''], stmt_of ''Activation'' [''C'', ''D''],
      stmt_of ''Complex'' [''A'', ''B'', ''C'']] []
   = (Inr [''Phosphorylation'', ''Complex'', ''parent''], [])"
proof -
  have 1: "direct_relation (recording_store reverse_only) ''A'' ''B''
     [stmt_of ''Phosphorylation'' [''A'', ''B''], stmt_of ''Activation'' [''C'', ''D''],
      stmt_of ''Complex'' [''A'', ''B'', ''C'']] []
     = (Inr [stmt_of ''Phosphorylation'' [''A'', ''B''], stmt_of ''Complex'' [''A'', ''B'', ''C'']], [])"
    by (simp add: direct_relation_def direct_relation_from_stmts_filter)
  show ?thesis
    using connection_types_labels_then_parent [OF 1, of family_hierarchy] family_common_parent
    by (auto simp: relation_type_def)
qed

text \<open>
  Claim C2 says that \<^verbatim>\<open>are_connected\<close> is true when the two ids have a common
  parent. A and B have one, under the namespace HGNC that \<^verbatim>\<open>has_common_parent\<close>
  uses by default, and the collection supplied holds no statement on both:
  \<^verbatim>\<open>are_connected\<close>, which asks under \<^verbatim>\<open>'HGCN'\<close>, answers \<^verbatim>\<open>False\<close>.
\<close>

theorem are_connected_misses_common_parent:
  "has_common_parent family_hierarchy ''HGNC'' ''A'' ''HGNC'' ''B'' ''all''
   \<and> are_connected family_hierarchy (recording_store reverse_only) ''A'' ''B''
        [stmt_of ''Activation'' [''C'', ''D'']] [] = (Inr False, [])"
  by (simp add: are_connected_def has_direct_relation_def direct_relation_def
      direct_relation_from_stmts_filter has_common_parent_def common_parent_def find_parent_def
      family_hierarchy_def)

text \<open>
  Claim C5. Whenever two ids have a common parent under HGNC, none under the
  namespace \<^verbatim>\<open>'HGCN'\<close> (so in particular when neither has any parent there), and
  no direct relation, \<^verbatim>\<open>are_connected\<close> returns \<^verbatim>\<open>False\<close> while
  \<^verbatim>\<open>connection_types\<close> returns \<^verbatim>\<open>['parent']\<close>. Such a pair exists: the witness
  is one.
\<close>

theorem are_connected_connection_types_disagree:
  assumes "has_common_parent ho ''HGNC'' id1 ''HGNC'' id2 ''all''"
    and "common_parent ho ''HGCN'' id1 ''HGCN'' id2 ''all'' = {}"
    and "direct_relation gs id1 id2 long_stmts w = (Inr [], w1)"
  shows "are_connected ho gs id1 id2 long_stmts w = (Inr False, w1)
       \<and> connection_types ho gs id1 id2 long_stmts w = (Inr [''parent''], w1)"
  using assms
  by (simp add: are_connected_def connection_types_def has_direct_relation_def
      has_common_parent_def relation_types_def)

theorem are_connected_connection_types_disagree_witness:
  "are_connected family_hierarchy (recording_store reverse_only) ''A'' ''B''
        [stmt_of ''Activation'' [''C'', ''D'']] [] = (Inr False, [])
   \<and> connection_types family_hierarchy (recording_store reverse_only) ''A'' ''B''
        [stmt_of ''Activation'' [''C'', ''D'']] [] = (Inr [''parent''], [])"
proof -
  have "direct_relation (recording_store reverse_only) ''A'' ''B''
        [stmt_of ''Activation'' [''C'', ''D'']] [] = (Inr [], [])"
    by (simp add: direct_relation_def direct_relation_from_stmts_filter)
  from are_connected_connection_types_disagree
    [OF family_common_parent family_no_HGCN_parent this]
  show ?thesis .
qed

section \<open>Properties of \<^verbatim>\<open>dbc_load_statements\<close>\<close>

lemma load_loop_append:
  "load_loop f (pre @ rest) acc db =
     (case load_loop f pre acc db of
        (Inl e, db1) \<Rightarrow> (Inl e, db1)
      | (Inr acc1, db1) \<Rightarrow> load_loop f rest acc1 db1)"
  by (induction pre arbitrary: acc db) (simp_all split: prod.splits sum.splits)

text \<open>
  Claim C10. If the fetches for the ids before \<open>hgnc_id\<close> succeed and the fetch for
  \<open>hgnc_id\<close> raises a statement error or a keyboard interrupt, then
  \<^verbatim>\<open>dbc_load_statements\<close> raises that same exception, whatever ids follow, and the
  database handle it leaves is the one the failed fetch left, rolled back: the
  rollback is the last thing done to the session.
\<close>

theorem dbc_load_statements_rollback_reraise:
  assumes "load_loop fetch pre {} db = (Inr acc, db1)"
    and "fetch hgnc_id db1 = (Inl e, db2)"
    and "e = StatementError \<or> e = KeyboardInterrupt"
  shows "dbc_load_statements fetch rollback (pre @ hgnc_id # post) db = (Inl e, rollback db2)"
  using assms by (auto simp: dbc_load_statements_def load_loop_append)

text \<open>
  With the session of pending operations: the second of three fetches fails, the
  error comes back, and nothing is pending afterwards.
\<close>

theorem dbc_load_statements_rollback_reraise_witness:
  "dbc_load_statements session_fetch session_rollback [''TP53'', ''bad'', ''BRCA1''] []
     = (Inl StatementError, [])"
proof -
  have 1: "load_loop session_fetch [''TP53''] {} []
     = (Inr {stmt_of ''Complex'' [''TP53'', ''X'']}, [''TP53''])"
    by (simp add: session_fetch_def)
  have 2: "session_fetch ''bad'' [''TP53''] = (Inl StatementError, [''TP53'', ''bad''])"
    by (simp add: session_fetch_def)
  show ?thesis
    using dbc_load_statements_rollback_reraise [OF 1 2, of session_rollback "[''BRCA1'']"]
    by (simp add: session_rollback_def)
qed

section \<open>Properties of \<^verbatim>\<open>nested_dict_gen\<close>\<close>

text \<open>What one step does to the entries of the index.\<close>

lemma add_entry_present:
  assumes "entry d a b = Some s"
  shows "\<exists>d'. add_entry d a b l = Inr d' \<and>
     (\<forall>x y. entry d' x y = (if x = a \<and> y = b then Some (insert l s) else entry d x y))"
  using assms
  by (auto simp: add_entry_def getitem_def entry_def split: option.splits)

lemma add_connection_entry:
  "\<exists>d'. add_connection d a b c = Inr d' \<and>
     (\<forall>x y. entry d' x y =
        (if x = a \<and> y = b then Some (insert c (labels d a b)) else entry d x y))"
  by (auto simp: add_connection_def add_entry_def set_entry_def getitem_def entry_def labels_def
      split: option.splits)

text \<open>
  The inner loop never raises: the entry that \<^verbatim>\<open>'parent'\<close> is added to has just
  been made. Every pair of the list gets the label and, if the pair has a common
  parent, \<^verbatim>\<open>'parent'\<close>; no other entry changes.
\<close>

lemma pair_loop_entry:
  "\<exists>d'. pair_loop ho c ps d = Inr d' \<and>
     (\<forall>x y. entry d' x y =
        (if (x, y) \<in> set ps then Some (insert c (labels d x y) \<union> parent_label ho x y)
         else entry d x y))"
proof (induction ps arbitrary: d)
  case Nil
  then show ?case by simp
next
  case (Cons p ps)
  obtain a b where p: "p = (a, b)" by (cases p)
  obtain d1 where d1: "add_connection d a b c = Inr d1"
    and e1: "\<And>x y. entry d1 x y =
        (if x = a \<and> y = b then Some (insert c (labels d a b)) else entry d x y)"
    using add_connection_entry [of d a b c] by blast
  obtain d2 where d2: "pair_loop ho c [(a, b)] d = Inr d2"
    and e2: "\<And>x y. entry d2 x y =
        (if x = a \<and> y = b then Some (insert c (labels d a b) \<union> parent_label ho a b)
         else entry d x y)"
    and step: "pair_loop ho c ((a, b) # ps) d = pair_loop ho c ps d2"
  proof (cases "has_common_parent ho ''HGNC'' a ''HGNC'' b ''all''")
    case True
    have "entry d1 a b = Some (insert c (labels d a b))" by (simp add: e1)
    from add_entry_present [OF this, of "''parent''"] obtain d' where
      "add_entry d1 a b ''parent'' = Inr d'"
      "\<And>x y. entry d' x y =
        (if x = a \<and> y = b then Some (insert ''parent'' (insert c (labels d a b))) else entry d1 x y)"
      by blast
    with True d1 e1 that [of d'] show ?thesis
      by (simp add: parent_label_def insert_commute)
  next
    case False
    with d1 e1 that [of d1] show ?thesis by (simp add: parent_label_def)
  qed
  from Cons.IH [of d2] obtain d' where d': "pair_loop ho c ps d2 = Inr d'"
    and e': "\<And>x y. entry d' x y =
        (if (x, y) \<in> set ps then Some (insert c (labels d2 x y) \<union> parent_label ho x y)
         else entry d2 x y)"
    by blast
  have "entry d' x y =
        (if (x, y) \<in> set (p # ps) then Some (insert c (labels d x y) \<union> parent_label ho x y)
         else entry d x y)" for x y
    by (auto simp: e' e2 p labels_def)
  with d' step p show ?case by auto
qed

text \<open>Of a list without repetition, the pairs are the pairs of different elements.\<close>

lemma set_permutations2:
  assumes "distinct xs"
  shows "set (permutations2 xs) = {(x, y). x \<in> set xs \<and> y \<in> set xs \<and> x \<noteq> y}"
proof (intro set_eqI iffI)
  fix p assume "p \<in> set (permutations2 xs)"
  then obtain i j where "p = (xs ! i, xs ! j)" "i < length xs" "j < length xs" "j \<noteq> i"
    by (auto simp: permutations2_def)
  with assms show "p \<in> {(x, y). x \<in> set xs \<and> y \<in> set xs \<and> x \<noteq> y}"
    by (simp add: nth_eq_iff_index_eq)
next
  fix p assume "p \<in> {(x, y). x \<in> set xs \<and> y \<in> set xs \<and> x \<noteq> y}"
  then obtain i j where "p = (xs ! i, xs ! j)" "i < length xs" "j < length xs" "xs ! i \<noteq> xs ! j"
    by (auto simp: in_set_conv_nth)
  moreover from this have "j \<noteq> i" by auto
  ultimately show "p \<in> set (permutations2 xs)"
    by (force simp: permutations2_def)
qed

lemma short_list_no_pair:
  "\<not> 1 < length xs \<Longrightarrow> x \<in> set xs \<Longrightarrow> y \<in> set xs \<Longrightarrow> x = y"
  by (cases xs) auto

lemma tying_labels_Nil: "tying_labels [] x y = {}"
  by (simp add: tying_labels_def)

lemma tying_labels_Cons:
  "tying_labels (st # rest) x y =
     (if stmt_type st \<noteq> [] \<and> x \<in> participant_names st \<and> y \<in> participant_names st
      then {stmt_type st} else {}) \<union> tying_labels rest x y"
  by (auto simp: tying_labels_def)

text \<open>
  The loop over the statements, from any index \<open>d\<close>, for any listing of sets that
  lists every element once.
\<close>

lemma stmt_loop_entry:
  assumes lo: "\<And>S. finite S \<Longrightarrow> set (list_of S) = S \<and> distinct (list_of S)"
  shows "\<exists>d'. stmt_loop ho list_of stmts d = Inr d' \<and>
     (\<forall>x y. entry d' x y =
        (if x \<noteq> y \<and> tying_labels stmts x y \<noteq> {}
         then Some (labels d x y \<union> tying_labels stmts x y \<union> parent_label ho x y)
         else entry d x y))"
proof (induction stmts arbitrary: d)
  case Nil
  then show ?case by (simp add: tying_labels_def)
next
  case (Cons st rest)
  let ?ns = "participant_names st"
  let ?xs = "list_of ?ns"
  have xs: "set ?xs = ?ns" "distinct ?xs" using lo [of ?ns] by simp_all
  show ?case
  proof (cases "1 < length ?xs \<and> stmt_type st \<noteq> []")
    case True
    obtain d1 where d1: "pair_loop ho (stmt_type st) (permutations2 ?xs) d = Inr d1"
      and e1: "\<And>x y. entry d1 x y =
        (if x \<in> ?ns \<and> y \<in> ?ns \<and> x \<noteq> y
         then Some (insert (stmt_type st) (labels d x y) \<union> parent_label ho x y)
         else entry d x y)"
      using pair_loop_entry [of ho "stmt_type st" "permutations2 ?xs" d]
      by (auto simp: set_permutations2 xs)
    from Cons.IH [of d1] obtain d' where d': "stmt_loop ho list_of rest d1 = Inr d'"
      and e': "\<And>x y. entry d' x y =
        (if x \<noteq> y \<and> tying_labels rest x y \<noteq> {}
         then Some (labels d1 x y \<union> tying_labels rest x y \<union> parent_label ho x y)
         else entry d1 x y)"
      by blast
    have "entry d' x y =
        (if x \<noteq> y \<and> tying_labels (st # rest) x y \<noteq> {}
         then Some (labels d x y \<union> tying_labels (st # rest) x y \<union> parent_label ho x y)
         else entry d x y)" for x y
      using True by (auto simp: e' e1 tying_labels_Cons labels_def)
    moreover have "stmt_loop ho list_of (st # rest) d = Inr d'"
      using True d1 d' by (simp add: agent_name_set_names Let_def)
    ultimately show ?thesis by blast
  next
    case False
    from Cons.IH [of d] obtain d' where d': "stmt_loop ho list_of rest d = Inr d'"
      and e': "\<And>x y. entry d' x y =
        (if x \<noteq> y \<and> tying_labels rest x y \<noteq> {}
         then Some (labels d x y \<union> tying_labels rest x y \<union> parent_label ho x y)
         else entry d x y)"
      by blast
    have same: "tying_labels (st # rest) x y = tying_labels rest x y" if "x \<noteq> y" for x y
    proof (cases "stmt_type st = []")
      case True
      then show ?thesis by (simp add: tying_labels_Cons)
    next
      case nonempty: False
      with False have "\<not> 1 < length ?xs" by simp
      from short_list_no_pair [OF this, of x y] that xs(1)
      have "\<not> (x \<in> ?ns \<and> y \<in> ?ns)" by auto
      then show ?thesis by (auto simp: tying_labels_Cons)
    qed
    have "entry d' x y =
        (if x \<noteq> y \<and> tying_labels (st # rest) x y \<noteq> {}
         then Some (labels d x y \<union> tying_labels (st # rest) x y \<union> parent_label ho x y)
         else entry d x y)" for x y
      using same [of x y] by (cases "x = y") (simp_all add: e')
    moreover have "stmt_loop ho list_of (st # rest) d = Inr d'"
      using False d' by (auto simp: agent_name_set_names Let_def)
    ultimately show ?thesis by blast
  qed
qed

text \<open>
  The whole index: a pair has an entry exactly when its two names differ and some
  statement with a non-empty label has both; the entry is then the set of those
  labels, with \<^verbatim>\<open>'parent'\<close> when the two names have a common parent.
\<close>

lemma nested_dict_gen_entry:
  assumes lo: "\<And>S. finite S \<Longrightarrow> set (list_of S) = S \<and> distinct (list_of S)"
  shows "\<exists>index. nested_dict_gen ho list_of stmts = Inr index \<and>
     (\<forall>x y. entry index x y =
        (if x \<noteq> y \<and> tying_labels stmts x y \<noteq> {}
         then Some (tying_labels stmts x y \<union> parent_label ho x y)
         else None))"
proof -
  have empty: "entry Map.empty x y = None" "labels Map.empty x y = {}" for x y
    by (simp_all add: labels_def entry_def)
  from stmt_loop_entry [of list_of ho stmts Map.empty, OF lo] obtain index where
    i: "stmt_loop ho list_of stmts Map.empty = Inr index"
    and e: "\<And>x y. entry index x y =
        (if x \<noteq> y \<and> tying_labels stmts x y \<noteq> {}
         then Some (labels Map.empty x y \<union> tying_labels stmts x y \<union> parent_label ho x y)
         else entry Map.empty x y)"
    by blast
  have "entry index x y =
        (if x \<noteq> y \<and> tying_labels stmts x y \<noteq> {}
         then Some (tying_labels stmts x y \<union> parent_label ho x y)
         else None)" for x y
    unfolding e empty by simp
  with i show ?thesis unfolding nested_dict_gen_def by blast
qed


lemma has_common_parent_commute:
  "has_common_parent ho ns1 id1 ns2 id2 type = has_common_parent ho ns2 id2 ns1 id1 type"
  by (auto simp: has_common_parent_def common_parent_def)

lemma parent_label_commute: "parent_label ho a b = parent_label ho b a"
  by (simp add: parent_label_def has_common_parent_commute [of ho _ a])

lemma tying_labels_commute: "tying_labels stmts a b = tying_labels stmts b a"
  by (auto simp: tying_labels_def)

text \<open>
  Claim C6. For every collection of statements, \<^verbatim>\<open>nested_dict_gen\<close> returns an
  index, and the index is symmetric: the pair (a, b) has an entry exactly when
  (b, a) has one, the two entries are the same set, and so a label, \<^verbatim>\<open>'parent'\<close>
  included, is under \<^verbatim>\<open>index[a][b]\<close> if and only if it is under
  \<^verbatim>\<open>index[b][a]\<close>. The order in which Python lists a set does not matter: the
  property holds for every listing \<open>list_of\<close> that lists each element once.
\<close>

theorem nested_dict_gen_symmetric:
  assumes "\<And>S. finite S \<Longrightarrow> set (list_of S) = S \<and> distinct (list_of S)"
  shows "\<exists>index. nested_dict_gen ho list_of stmts = Inr index
       \<and> entry index a b = entry index b a
       \<and> (L \<in> labels index a b \<longleftrightarrow> L \<in> labels index b a)"
proof -
  from nested_dict_gen_entry [of list_of ho stmts, OF assms] obtain index where
    i: "nested_dict_gen ho list_of stmts = Inr index"
    and e: "\<And>x y. entry index x y =
        (if x \<noteq> y \<and> tying_labels stmts x y \<noteq> {}
         then Some (tying_labels stmts x y \<union> parent_label ho x y)
         else None)"
    by blast
  have "entry index a b = entry index b a"
    unfolding e tying_labels_commute [of stmts a b] parent_label_commute [of ho a b] by auto
  with i show ?thesis by (simp add: labels_def)
qed

text \<open>
  The statements Phosphorylation(A, B) and Complex(A, B, C), A and B with a common
  parent, sets listed in sorted order.
\<close>

theorem nested_dict_gen_symmetric_witness:
  "\<exists>index. nested_dict_gen family_hierarchy sorted_list_of_set
       [stmt_of ''Phosphorylation'' [''A'', ''B''], stmt_of ''Complex'' [''A'', ''B'', ''C'']] = Inr index
     \<and> entry index ''A'' ''B'' = Some {''Phosphorylation'', ''Complex'', ''parent''}
     \<and> entry index ''B'' ''A'' = Some {''Phosphorylation'', ''Complex'', ''parent''}
     \<and> (''parent'' \<in> labels index ''A'' ''B'' \<longleftrightarrow> ''parent'' \<in> labels index ''B'' ''A'')"
proof -
  let ?stmts = "[stmt_of ''Phosphorylation'' [''A'', ''B''], stmt_of ''Complex'' [''A'', ''B'', ''C'']]"
  from nested_dict_gen_symmetric [of sorted_list_of_set family_hierarchy ?stmts
       "''A''" "''B''" "''parent''"]
  obtain index where i: "nested_dict_gen family_hierarchy sorted_list_of_set ?stmts = Inr index"
    and s: "entry index ''A'' ''B'' = entry index ''B'' ''A''"
    and l: "''parent'' \<in> labels index ''A'' ''B'' \<longleftrightarrow> ''parent'' \<in> labels index ''B'' ''A''"
    by auto
  from nested_dict_gen_entry [of sorted_list_of_set family_hierarchy ?stmts] i
  have "entry index ''A'' ''B'' =
      (if ''A'' \<noteq> ''B'' \<and> tying_labels ?stmts ''A'' ''B'' \<noteq> {}
       then Some (tying_labels ?stmts ''A'' ''B'' \<union> parent_label family_hierarchy ''A'' ''B'')
       else None)"
    by auto
  also have "tying_labels ?stmts ''A'' ''B'' = {''Phosphorylation'', ''Complex''}"
    by (simp add: tying_labels_Cons tying_labels_Nil insert_commute)
  also have "parent_label family_hierarchy ''A'' ''B'' = {''parent''}"
    by (simp add: parent_label_def family_common_parent)
  finally have "entry index ''A'' ''B'' = Some {''Phosphorylation'', ''Complex'', ''parent''}"
    by (simp add: insert_commute)
  with i s l show ?thesis by simp
qed

text \<open>
  Claim C3, as amended. The index has an entry for (a, b) if and only if a and b
  are different names and some statement of the collection with a non-empty relation
  type has both among its participants. A common ancestor has no part in it.
\<close>

theorem nested_dict_gen_entry_iff_statement:
  assumes "\<And>S. finite S \<Longrightarrow> set (list_of S) = S \<and> distinct (list_of S)"
  shows "\<exists>index. nested_dict_gen ho list_of stmts = Inr index
       \<and> (entry index a b \<noteq> None \<longleftrightarrow>
            a \<noteq> b \<and> (\<exists>st \<in> set stmts. stmt_type st \<noteq> []
                        \<and> a \<in> participant_names st \<and> b \<in> participant_names st))"
proof -
  from nested_dict_gen_entry [of list_of ho stmts, OF assms] obtain index where
    i: "nested_dict_gen ho list_of stmts = Inr index"
    and e: "\<And>x y. entry index x y =
        (if x \<noteq> y \<and> tying_labels stmts x y \<noteq> {}
         then Some (tying_labels stmts x y \<union> parent_label ho x y)
         else None)"
    by blast
  have "tying_labels stmts a b \<noteq> {} \<longleftrightarrow>
      (\<exists>st \<in> set stmts. stmt_type st \<noteq> [] \<and> a \<in> participant_names st \<and> b \<in> participant_names st)"
    by (auto simp: tying_labels_def)
  with i e [of a b] show ?thesis by auto
qed

text \<open>The complex of A, B and C gives the pair (C, A) an entry.\<close>

theorem nested_dict_gen_entry_iff_statement_witness:
  "\<exists>index. nested_dict_gen flat_hierarchy sorted_list_of_set
       [stmt_of ''Phosphorylation'' [''A'', ''B''], stmt_of ''Complex'' [''A'', ''B'', ''C'']] = Inr index
     \<and> entry index ''C'' ''A'' \<noteq> None"
  using nested_dict_gen_entry_iff_statement [of sorted_list_of_set flat_hierarchy
       "[stmt_of ''Phosphorylation'' [''A'', ''B''], stmt_of ''Complex'' [''A'', ''B'', ''C'']]"
       "''C''" "''A''"]
  by simp

text \<open>
  Claim C3 as it is written fails: A and B have a common parent, and the index built
  from the one statement Activation(C, D) has no entry for (A, B).
\<close>

theorem nested_dict_gen_common_ancestor_counterexample:
  "has_common_parent family_hierarchy ''HGNC'' ''A'' ''HGNC'' ''B'' ''all''
   \<and> (\<exists>index. nested_dict_gen family_hierarchy sorted_list_of_set
         [stmt_of ''Activation'' [''C'', ''D'']] = Inr index
       \<and> entry index ''A'' ''B'' = None \<and> entry index ''C'' ''D'' = Some {''Activation''})"
proof -
  from nested_dict_gen_entry
    [of sorted_list_of_set family_hierarchy "[stmt_of ''Activation'' [''C'', ''D'']]"]
  obtain index where
    i: "nested_dict_gen family_hierarchy sorted_list_of_set [stmt_of ''Activation'' [''C'', ''D'']]
        = Inr index"
    and e: "\<And>x y. entry index x y =
        (if x \<noteq> y \<and> tying_labels [stmt_of ''Activation'' [''C'', ''D'']] x y \<noteq> {}
         then Some (tying_labels [stmt_of ''Activation'' [''C'', ''D'']] x y
                    \<union> parent_label family_hierarchy x y)
         else None)"
    by auto
  have "entry index ''A'' ''B'' = None"
    by (simp add: e tying_labels_Cons tying_labels_Nil)
  moreover have "entry index ''C'' ''D'' = Some {''Activation''}"
    by (simp add: e tying_labels_Cons tying_labels_Nil parent_label_def has_common_parent_def
        common_parent_def find_parent_def family_hierarchy_def)
  ultimately show ?thesis using i family_common_parent by blast
qed

end
